theory Spec2Isabelle
  imports Complex_Main
begin

section \<open>Values of the notebooks\<close>

text \<open>
  The notebooks compute with numpy's float64 scalars and one-dimensional float64
  arrays. A float64 is a finite number, an infinity or NaN. Arithmetic on finite numbers
  is exact in this development: rounding is not part of the model, and \<open>-0.0\<close> is
  not told apart from \<open>0.0\<close>.
\<close>

datatype float64 = Fin real | PInf | NInf | NaN

text \<open>
  numpy reports a floating-point exception of an operation as a \<open>RuntimeWarning\<close>
  (the default error state); an operation that cannot be carried out at all raises.
\<close>

datatype warning = MeanOfEmptySlice | DivideByZero | InvalidValue

datatype error = ValueError | IndexError

type_synonym flagged = "float64 \<times> warning list"

type_synonym ndarray = "float64 list"

fun f_sgn :: "float64 \<Rightarrow> real" where
  "f_sgn (Fin a) = sgn a"
| "f_sgn PInf = 1"
| "f_sgn NInf = - 1"
| "f_sgn NaN = 0"

definition inf_of :: "real \<Rightarrow> float64" where
  "inf_of s = (if s = 0 then NaN else if 0 < s then PInf else NInf)"

fun f_add :: "float64 \<Rightarrow> float64 \<Rightarrow> float64" where
  "f_add NaN b = NaN"
| "f_add a NaN = NaN"
| "f_add (Fin a) (Fin b) = Fin (a + b)"
| "f_add PInf NInf = NaN"
| "f_add NInf PInf = NaN"
| "f_add PInf b = PInf"
| "f_add a PInf = PInf"
| "f_add NInf b = NInf"
| "f_add a NInf = NInf"

fun f_neg :: "float64 \<Rightarrow> float64" where
  "f_neg (Fin a) = Fin (- a)"
| "f_neg PInf = NInf"
| "f_neg NInf = PInf"
| "f_neg NaN = NaN"

fun f_mul :: "float64 \<Rightarrow> float64 \<Rightarrow> float64" where
  "f_mul NaN b = NaN"
| "f_mul a NaN = NaN"
| "f_mul (Fin a) (Fin b) = Fin (a * b)"
| "f_mul a b = inf_of (f_sgn a * f_sgn b)"

fun f_div :: "float64 \<Rightarrow> float64 \<Rightarrow> float64" where
  "f_div NaN b = NaN"
| "f_div a NaN = NaN"
| "f_div (Fin a) (Fin b) = (if b = 0 then inf_of (sgn a) else Fin (a / b))"
| "f_div (Fin a) b = Fin 0"
| "f_div a (Fin b) = inf_of (if b < 0 then - f_sgn a else f_sgn a)"
| "f_div a b = NaN"

text \<open>
  The invalid-operation exception: the result is NaN although no operand is.
  Division of a finite nonzero number by zero is the divide-by-zero exception.
\<close>

definition invalid :: "float64 \<Rightarrow> float64 \<Rightarrow> float64 \<Rightarrow> warning list" where
  "invalid a b r = (if r = NaN \<and> a \<noteq> NaN \<and> b \<noteq> NaN then [InvalidValue] else [])"

definition fl_add :: "float64 \<Rightarrow> float64 \<Rightarrow> flagged" where
  "fl_add a b = (f_add a b, invalid a b (f_add a b))"

definition fl_sub :: "float64 \<Rightarrow> float64 \<Rightarrow> flagged" where
  "fl_sub a b = (f_add a (f_neg b), invalid a b (f_add a (f_neg b)))"

definition fl_mul :: "float64 \<Rightarrow> float64 \<Rightarrow> flagged" where
  "fl_mul a b = (f_mul a b, invalid a b (f_mul a b))"

fun div_by_zero :: "float64 \<Rightarrow> float64 \<Rightarrow> bool" where
  "div_by_zero (Fin a) (Fin b) = (b = 0 \<and> a \<noteq> 0)"
| "div_by_zero a b = False"

definition fl_div :: "float64 \<Rightarrow> float64 \<Rightarrow> flagged" where
  "fl_div a b =
     (f_div a b, if div_by_zero a b then [DivideByZero] else invalid a b (f_div a b))"

text \<open>
  One call of a numpy operation warns at most once for each kind of exception, and
  checks divide-by-zero before invalid.
\<close>

definition fp_warnings :: "warning list \<Rightarrow> warning list" where
  "fp_warnings ws = filter (\<lambda>w. w \<in> set ws) [DivideByZero, InvalidValue]"

section \<open>The interpreter state\<close>

text \<open>
  Arrays are objects: a variable holds a reference, and two variables may hold the same
  one. The heap is the list of the arrays allocated so far, a reference is an index into
  it, and a new array goes to the end. What \<open>print\<close> writes and the warnings numpy
  issues are logged in the state.
\<close>

type_synonym addr = nat

datatype printed = Line string | Val float64 | Fmt string ndarray

record state =
  heap :: "ndarray list"
  out :: "printed list"
  warned :: "warning list"

datatype 'a outcome = Return 'a | Raise error

type_synonym 'a py = "state \<Rightarrow> 'a outcome \<times> state"

definition ret :: "'a \<Rightarrow> 'a py" where
  "ret v s = (Return v, s)"

definition raise :: "error \<Rightarrow> 'a py" where
  "raise e s = (Raise e, s)"

definition bind :: "'a py \<Rightarrow> ('a \<Rightarrow> 'b py) \<Rightarrow> 'b py" where
  "bind m f s = (case m s of (Return v, s') \<Rightarrow> f v s' | (Raise e, s') \<Rightarrow> (Raise e, s'))"

definition warn :: "warning list \<Rightarrow> unit py" where
  "warn ws s = (Return (), s\<lparr>warned := warned s @ ws\<rparr>)"

definition print :: "printed \<Rightarrow> unit py" where
  "print p s = (Return (), s\<lparr>out := out s @ [p]\<rparr>)"

definition load :: "addr \<Rightarrow> ndarray py" where
  "load x s = (Return (heap s ! x), s)"

definition new_array :: "ndarray \<Rightarrow> addr py" where
  "new_array a s = (Return (length (heap s)), s\<lparr>heap := heap s @ [a]\<rparr>)"

definition emit :: "flagged list \<Rightarrow> addr py" where
  "emit rs = bind (warn (fp_warnings (concat (map snd rs)))) (\<lambda>_. new_array (map fst rs))"

section \<open>The numpy operations the notebooks call\<close>

text \<open>
  A binary operation on two arrays works elementwise on equal lengths, stretches an
  array of length one, and raises \<open>ValueError\<close> on any other pair of lengths. The
  result is a new array.
\<close>

definition broadcast ::
  "(float64 \<Rightarrow> float64 \<Rightarrow> flagged) \<Rightarrow> ndarray \<Rightarrow> ndarray \<Rightarrow> flagged list option" where
  "broadcast f a b =
     (if length a = length b then Some (map2 f a b)
      else if length a = 1 then Some (map (f (hd a)) b)
      else if length b = 1 then Some (map (\<lambda>u. f u (hd b)) a)
      else None)"

definition array_op :: "(float64 \<Rightarrow> float64 \<Rightarrow> flagged) \<Rightarrow> addr \<Rightarrow> addr \<Rightarrow> addr py" where
  "array_op f x y =
     bind (load x) (\<lambda>a.
     bind (load y) (\<lambda>b.
       case broadcast f a b of
         None \<Rightarrow> raise ValueError
       | Some rs \<Rightarrow> emit rs))"

text \<open>An array and a scalar: the scalar meets every element.\<close>

definition array_scalar_op ::
  "(float64 \<Rightarrow> float64 \<Rightarrow> flagged) \<Rightarrow> addr \<Rightarrow> float64 \<Rightarrow> addr py" where
  "array_scalar_op f x c = bind (load x) (\<lambda>a. emit (map (\<lambda>u. f u c) a))"

text \<open>\<open>x**2\<close> on an array squares every element.\<close>

definition array_square :: "addr \<Rightarrow> addr py" where
  "array_square x = bind (load x) (\<lambda>a. emit (map (\<lambda>u. fl_mul u u) a))"

definition scalar_op :: "(float64 \<Rightarrow> float64 \<Rightarrow> flagged) \<Rightarrow> float64 \<Rightarrow> float64 \<Rightarrow> float64 py" where
  "scalar_op f a b = bind (warn (fp_warnings (snd (f a b)))) (\<lambda>_. ret (fst (f a b)))"

text \<open>
  \<open>np.sum\<close> adds the elements up, from \<open>0.0\<close> for the empty array. The order of
  the additions changes the rounding, which is not modelled, and nothing else on finite
  numbers.
\<close>

fun sum_from :: "float64 \<Rightarrow> ndarray \<Rightarrow> flagged" where
  "sum_from acc [] = (acc, [])"
| "sum_from acc (v # vs) =
     (case sum_from (f_add acc v) vs of (r, ws) \<Rightarrow> (r, snd (fl_add acc v) @ ws))"

definition np_sum :: "addr \<Rightarrow> float64 py" where
  "np_sum x =
     bind (load x) (\<lambda>a.
     bind (warn (fp_warnings (snd (sum_from (Fin 0) a)))) (\<lambda>_.
     ret (fst (sum_from (Fin 0) a))))"

text \<open>
  \<open>np.average\<close> without weights is the array's \<open>mean\<close>: the sum divided by the number
  of elements. On an empty array it warns "Mean of empty slice", and the division of
  \<open>0.0\<close> by \<open>0\<close> gives NaN with an invalid-value warning; nothing is raised.
\<close>

definition np_average :: "addr \<Rightarrow> float64 py" where
  "np_average x =
     bind (load x) (\<lambda>a.
     bind (warn (if length a = 0 then [MeanOfEmptySlice] else [])) (\<lambda>_.
     bind (np_sum x) (\<lambda>total.
     scalar_op fl_div total (Fin (real (length a))))))"

text \<open>\<open>e.copy()\<close> is a new array with the same elements.\<close>

definition copy :: "addr \<Rightarrow> addr py" where
  "copy x = bind (load x) new_array"

text \<open>
  \<open>e[i] = v\<close> for a constant index \<open>i \<ge> 0\<close> writes into the array the reference points
  to, and raises \<open>IndexError\<close> when the array is too short.
\<close>

definition setitem :: "addr \<Rightarrow> nat \<Rightarrow> float64 \<Rightarrow> unit py" where
  "setitem x i v s =
     (if i < length (heap s ! x)
      then (Return (), s\<lparr>heap := (heap s)[x := (heap s ! x)[i := v]]\<rparr>)
      else (Raise IndexError, s))"

section \<open>The truncation-error notebook\<close>

text \<open>
  \<^verbatim>\<open>
  def LinearFit(x, y):
      xMean = np.average(x)
      yMean = np.average(y)
      x2Mean = np.average(x**2)
      xyMean = np.average(x*y)
      beta = (xyMean - xMean * yMean) / (x2Mean - xMean**2)
      alpha = yMean - beta * xMean
      return beta, alpha
  \<close>
  The function is written in two parts, cut at its division: \<open>LinearFit_operands\<close> is
  everything up to it and returns \<open>xMean\<close>, \<open>yMean\<close>, the numerator and the denominator
  (the source's commented-out \<open>print(x2Mean - xMean**2)\<close>); \<open>LinearFit\<close> divides and
  goes on. Python evaluates the numerator before the denominator.
\<close>

definition LinearFit_operands ::
  "addr \<Rightarrow> addr \<Rightarrow> (float64 \<times> float64 \<times> float64 \<times> float64) py" where
  "LinearFit_operands x y =
     bind (np_average x) (\<lambda>xMean.
     bind (np_average y) (\<lambda>yMean.
     bind (array_square x) (\<lambda>x2.
     bind (np_average x2) (\<lambda>x2Mean.
     bind (array_op fl_mul x y) (\<lambda>xy.
     bind (np_average xy) (\<lambda>xyMean.
     bind (scalar_op fl_mul xMean yMean) (\<lambda>m1.
     bind (scalar_op fl_sub xyMean m1) (\<lambda>num.
     bind (scalar_op fl_mul xMean xMean) (\<lambda>m2.
     bind (scalar_op fl_sub x2Mean m2) (\<lambda>den.
     ret (xMean, yMean, num, den)))))))))))"

definition LinearFit :: "addr \<Rightarrow> addr \<Rightarrow> (float64 \<times> float64) py" where
  "LinearFit x y =
     bind (LinearFit_operands x y) (\<lambda>(xMean, yMean, num, den).
     bind (scalar_op fl_div num den) (\<lambda>beta.
     bind (scalar_op fl_mul beta xMean) (\<lambda>m.
     bind (scalar_op fl_sub yMean m) (\<lambda>alpha.
     ret (beta, alpha)))))"

text \<open>
  \<^verbatim>\<open>
  def LinearFit2(x, y):
      xMean = np.average(x)
      yMean = np.average(y)
      beta = np.sum((x - xMean) * (y - yMean)) / np.sum((x - xMean)**2)
      alpha = yMean - beta * xMean
      return beta, alpha
  \<close>
  Cut at the division in the same way. \<open>x - xMean\<close> is computed twice, as written.
\<close>

definition LinearFit2_operands ::
  "addr \<Rightarrow> addr \<Rightarrow> (float64 \<times> float64 \<times> float64 \<times> float64) py" where
  "LinearFit2_operands x y =
     bind (np_average x) (\<lambda>xMean.
     bind (np_average y) (\<lambda>yMean.
     bind (array_scalar_op fl_sub x xMean) (\<lambda>dx.
     bind (array_scalar_op fl_sub y yMean) (\<lambda>dy.
     bind (array_op fl_mul dx dy) (\<lambda>dxdy.
     bind (np_sum dxdy) (\<lambda>num.
     bind (array_scalar_op fl_sub x xMean) (\<lambda>dx'.
     bind (array_square dx') (\<lambda>dx2.
     bind (np_sum dx2) (\<lambda>den.
     ret (xMean, yMean, num, den))))))))))"

definition LinearFit2 :: "addr \<Rightarrow> addr \<Rightarrow> (float64 \<times> float64) py" where
  "LinearFit2 x y =
     bind (LinearFit2_operands x y) (\<lambda>(xMean, yMean, num, den).
     bind (scalar_op fl_div num den) (\<lambda>beta.
     bind (scalar_op fl_mul beta xMean) (\<lambda>m.
     bind (scalar_op fl_sub yMean m) (\<lambda>alpha.
     ret (beta, alpha)))))"

text \<open>
  The cell that compares the fits, with the globals \<open>t\<close>, \<open>ph\<close> and \<open>baseline\<close> it
  reads as parameters and the three globals it assigns as its result:
  \<^verbatim>\<open>
  print("== Fit with baseline present ==")
  lfBaseline = LinearFit(t, ph)
  print(lfBaseline[0])
  print("== Fit with baseline manually removed ==")
  lfNoBaseline = LinearFit(t-baseline, ph)
  print(lfNoBaseline[0])
  print("== Alternative formula works with baseline present ==")
  lf2Baseline = LinearFit2(t, ph)
  print(lf2Baseline[0])
  \<close>
\<close>

definition comparator ::
  "addr \<Rightarrow> addr \<Rightarrow> float64 \<Rightarrow>
     ((float64 \<times> float64) \<times> (float64 \<times> float64) \<times> (float64 \<times> float64)) py" where
  "comparator t ph baseline =
     bind (print (Line ''== Fit with baseline present =='')) (\<lambda>_.
     bind (LinearFit t ph) (\<lambda>lfBaseline.
     bind (print (Val (fst lfBaseline))) (\<lambda>_.
     bind (print (Line ''== Fit with baseline manually removed =='')) (\<lambda>_.
     bind (array_scalar_op fl_sub t baseline) (\<lambda>t0.
     bind (LinearFit t0 ph) (\<lambda>lfNoBaseline.
     bind (print (Val (fst lfNoBaseline))) (\<lambda>_.
     bind (print (Line ''== Alternative formula works with baseline present =='')) (\<lambda>_.
     bind (LinearFit2 t ph) (\<lambda>lf2Baseline.
     bind (print (Val (fst lf2Baseline))) (\<lambda>_.
     ret (lfBaseline, lfNoBaseline, lf2Baseline)))))))))))"


section \<open>The variable-scope notebook\<close>

text \<open>
  \<^verbatim>\<open>
  def function4(e):
      print(' Inside the function, we receive an argument with value {0}'.format(e))
      e[2] = 0
      print(' We set one element to zero - now, inside the function, e={0}'.format(e))

  def function4_safe(e):
      # Make a copy of our argument, so we can safely modify it
      e = e.copy()
      print(' Inside the function, we receive an argument with value {0}'.format(e))
      e[2] = 1
      print(' We set one element to zero - now, inside the function, e={0}'.format(e))
  \<close>
  A formatted line is logged as its format string and the array it shows.
\<close>

definition function4 :: "addr \<Rightarrow> unit py" where
  "function4 e =
     bind (load e) (\<lambda>a.
     bind (print (Fmt '' Inside the function, we receive an argument with value {0}'' a)) (\<lambda>_.
     bind (setitem e 2 (Fin 0)) (\<lambda>_.
     bind (load e) (\<lambda>a'.
     print (Fmt '' We set one element to zero - now, inside the function, e={0}'' a')))))"

definition function4_safe :: "addr \<Rightarrow> unit py" where
  "function4_safe e0 =
     bind (copy e0) (\<lambda>e.
     bind (load e) (\<lambda>a.
     bind (print (Fmt '' Inside the function, we receive an argument with value {0}'' a)) (\<lambda>_.
     bind (setitem e 2 (Fin 1)) (\<lambda>_.
     bind (load e) (\<lambda>a'.
     print (Fmt '' We set one element to zero - now, inside the function, e={0}'' a'))))))"

section \<open>The formulas of the specification\<close>

text \<open>
  The specification's words, on exact numbers: the mean, the elementwise products and
  squares, and the two estimators. A quotient with denominator zero is NaN (for these
  formulas the numerator is zero whenever the denominator is).
\<close>

definition mean :: "real list \<Rightarrow> real" where
  "mean xs = sum_list xs / real (length xs)"

definition products :: "real list \<Rightarrow> real list \<Rightarrow> real list" where
  "products xs ys = map2 (*) xs ys"

definition squares :: "real list \<Rightarrow> real list" where
  "squares xs = map (\<lambda>u. u * u) xs"

definition naive_num :: "real list \<Rightarrow> real list \<Rightarrow> real" where
  "naive_num xs ys = mean (products xs ys) - mean xs * mean ys"

definition naive_den :: "real list \<Rightarrow> real" where
  "naive_den xs = mean (squares xs) - mean xs * mean xs"

definition centred :: "real list \<Rightarrow> real list" where
  "centred xs = map (\<lambda>u. u - mean xs) xs"

definition stable_num :: "real list \<Rightarrow> real list \<Rightarrow> real" where
  "stable_num xs ys = sum_list (products (centred xs) (centred ys))"

definition stable_den :: "real list \<Rightarrow> real" where
  "stable_den xs = sum_list (squares (centred xs))"

definition line_through :: "real \<Rightarrow> real \<Rightarrow> real \<Rightarrow> real \<Rightarrow> float64 \<times> float64" where
  "line_through num den meanX meanY =
     (if den = 0 then (NaN, NaN) else (Fin (num / den), Fin (meanY - num / den * meanX)))"

definition naive_fit :: "real list \<Rightarrow> real list \<Rightarrow> float64 \<times> float64" where
  "naive_fit xs ys = line_through (naive_num xs ys) (naive_den xs) (mean xs) (mean ys)"

definition stable_fit :: "real list \<Rightarrow> real list \<Rightarrow> float64 \<times> float64" where
  "stable_fit xs ys = line_through (stable_num xs ys) (stable_den xs) (mean xs) (mean ys)"

text \<open>The array at reference \<open>x\<close> exists and holds the finite numbers \<open>xs\<close>.\<close>

definition holds :: "state \<Rightarrow> addr \<Rightarrow> real list \<Rightarrow> bool" where
  "holds s x xs \<longleftrightarrow> x < length (heap s) \<and> heap s ! x = map Fin xs"

text \<open>Every array of \<open>s\<close> is an array of \<open>s'\<close>, with the same elements.\<close>

definition arrays_kept :: "state \<Rightarrow> state \<Rightarrow> bool" where
  "arrays_kept s s' \<longleftrightarrow> take (length (heap s)) (heap s') = heap s"

text \<open>
  A state to run the functions on: two arrays of three distinct values each, a constant
  array, two empty arrays and a short one.
\<close>

definition sample :: state where
  "sample =
     \<lparr>heap = [map Fin [1, 2, 3], map Fin [2, 4, 9], map Fin [1, 1, 1], [], [], map Fin [1, 2]],
      out = [], warned = []\<rparr>"

text \<open>
  The notebook's data without the baseline: \<open>_t\<close> at reference 0 and \<open>ph\<close> at
  reference 1.
\<close>

definition scenario :: state where
  "scenario =
     \<lparr>heap =
        [map Fin [0.440225, 0.45023, 0.460235, 0.470241, 0.480245,
                  0.490251, 0.500256, 0.510261, 0.520266, 0.530271],
         map Fin [568.1473, 568.4774, 568.7626, 569.0398, 569.234,
                  569.5013, 569.8461, 570.1536, 570.3557, 570.6171]],
      out = [], warned = []\<rparr>"

section \<open>Running the operations on finite arrays\<close>

lemma fp_warnings_Nil [simp]: "fp_warnings [] = []"
  by (simp add: fp_warnings_def)

lemma fl_add_Fin [simp]: "fl_add (Fin a) (Fin b) = (Fin (a + b), [])"
  by (simp add: fl_add_def invalid_def)

lemma fl_sub_Fin [simp]: "fl_sub (Fin a) (Fin b) = (Fin (a - b), [])"
  by (simp add: fl_sub_def invalid_def)

lemma fl_mul_Fin [simp]: "fl_mul (Fin a) (Fin b) = (Fin (a * b), [])"
  by (simp add: fl_mul_def invalid_def)

lemma fl_div_Fin: "b \<noteq> 0 \<Longrightarrow> fl_div (Fin a) (Fin b) = (Fin (a / b), [])"
  by (simp add: fl_div_def invalid_def)

lemma fl_div_zero_zero: "fl_div (Fin 0) (Fin 0) = (NaN, [InvalidValue])"
  by (simp add: fl_div_def invalid_def inf_of_def)

lemma warn_Nil [simp]: "warn [] s = (Return (), s)"
  by (simp add: warn_def)

lemma sum_from_Fin: "sum_from (Fin c) (map Fin xs) = (Fin (c + sum_list xs), [])"
  by (induction xs arbitrary: c) (simp_all add: add.assoc)

lemma np_sum_Fin:
  "heap s ! x = map Fin xs \<Longrightarrow> np_sum x s = (Return (Fin (sum_list xs)), s)"
  by (simp add: np_sum_def bind_def load_def ret_def sum_from_Fin)

lemma scalar_op_quiet:
  "snd (f a b) = [] \<Longrightarrow> scalar_op f a b s = (Return (fst (f a b)), s)"
  by (simp add: scalar_op_def bind_def ret_def)

lemma np_average_Fin:
  "heap s ! x = map Fin xs \<Longrightarrow> xs \<noteq> [] \<Longrightarrow> np_average x s = (Return (Fin (mean xs)), s)"
  by (simp add: np_average_def bind_def load_def np_sum_Fin scalar_op_quiet fl_div_Fin mean_def)

lemma emit_quiet:
  "emit (map (\<lambda>u. (g u, [])) us) s =
     (Return (length (heap s)), s\<lparr>heap := heap s @ [map g us]\<rparr>)"
proof -
  have flat: "concat (map (\<lambda>u. []) us) = ([] :: warning list)"
    by (induction us) simp_all
  show ?thesis
    by (simp add: emit_def bind_def new_array_def comp_def flat)
qed

lemma array_square_Fin:
  "heap s ! x = map Fin xs \<Longrightarrow>
   array_square x s =
     (Return (length (heap s)), s\<lparr>heap := heap s @ [map Fin (squares xs)]\<rparr>)"
  using emit_quiet [of "\<lambda>u. Fin (u * u)" xs s]
  by (simp add: array_square_def bind_def load_def squares_def comp_def)


lemma map2_Fin:
  "length xs = length ys \<Longrightarrow>
   map2 fl_mul (map Fin xs) (map Fin ys) = map (\<lambda>u. (Fin u, [])) (products xs ys)"
  by (induction xs ys rule: list_induct2) (simp_all add: products_def)

lemma array_mul_Fin:
  "heap s ! x = map Fin xs \<Longrightarrow> heap s ! y = map Fin ys \<Longrightarrow> length xs = length ys \<Longrightarrow>
   array_op fl_mul x y s =
     (Return (length (heap s)), s\<lparr>heap := heap s @ [map Fin (products xs ys)]\<rparr>)"
  using emit_quiet [of Fin "products xs ys" s]
  by (simp add: array_op_def bind_def load_def broadcast_def map2_Fin)

lemma holds_alloc:
  "holds s x xs \<Longrightarrow> holds (s\<lparr>heap := heap s @ as\<rparr>) x xs"
  by (simp add: holds_def nth_append)

lemma holds_out [simp]: "holds (s\<lparr>out := ps\<rparr>) x xs = holds s x xs"
  by (simp add: holds_def)

lemma holds_warned [simp]: "holds (s\<lparr>warned := ws\<rparr>) x xs = holds s x xs"
  by (simp add: holds_def)

lemma holds_new:
  "holds (s\<lparr>heap := heap s @ [map Fin xs]\<rparr>) (length (heap s)) xs"
  by (simp add: holds_def)

lemma holdsD: "holds s x xs \<Longrightarrow> heap s ! x = map Fin xs"
  by (simp add: holds_def)

lemma products_Nil_iff: "length xs = length ys \<Longrightarrow> products xs ys = [] \<longleftrightarrow> xs = []"
  by (cases xs; cases ys) (simp_all add: products_def)

lemma squares_Nil_iff [simp]: "squares xs = [] \<longleftrightarrow> xs = []"
  by (simp add: squares_def)

lemma np_average_holds:
  "holds s x xs \<Longrightarrow> xs \<noteq> [] \<Longrightarrow> np_average x s = (Return (Fin (mean xs)), s)"
  by (simp add: np_average_Fin holdsD)


lemma array_square_holds:
  "holds s x xs \<Longrightarrow>
   array_square x s =
     (Return (length (heap s)), s\<lparr>heap := heap s @ [map Fin (squares xs)]\<rparr>)"
  by (simp add: array_square_Fin holdsD)

lemma array_mul_holds:
  "holds s x xs \<Longrightarrow> holds s y ys \<Longrightarrow> length xs = length ys \<Longrightarrow>
   array_op fl_mul x y s =
     (Return (length (heap s)), s\<lparr>heap := heap s @ [map Fin (products xs ys)]\<rparr>)"
  by (simp add: array_mul_Fin holdsD)


lemma holds_alloc2:
  "holds (s\<lparr>heap := heap s @ [a, map Fin xs]\<rparr>) (Suc (length (heap s))) xs"
  by (simp add: holds_def nth_append)

lemma LinearFit_operands_Fin:
  assumes x: "holds s x xs" and y: "holds s y ys"
    and len: "length xs = length ys" and ne: "xs \<noteq> []"
  shows "LinearFit_operands x y s =
    (Return (Fin (mean xs), Fin (mean ys), Fin (naive_num xs ys), Fin (naive_den xs)),
     s\<lparr>heap := heap s @ [map Fin (squares xs), map Fin (products xs ys)]\<rparr>)"
proof -
  let ?s1 = "s\<lparr>heap := heap s @ [map Fin (squares xs)]\<rparr>"
  let ?s2 = "s\<lparr>heap := heap s @ [map Fin (squares xs), map Fin (products xs ys)]\<rparr>"
  from ne len have ney: "ys \<noteq> []" by auto
  have a1: "np_average x s = (Return (Fin (mean xs)), s)"
    using x ne by (rule np_average_holds)
  have a2: "np_average y s = (Return (Fin (mean ys)), s)"
    using y ney by (rule np_average_holds)
  have a3: "array_square x s = (Return (length (heap s)), ?s1)"
    using x by (rule array_square_holds)
  have a4: "np_average (length (heap s)) ?s1 = (Return (Fin (mean (squares xs))), ?s1)"
    using ne by (intro np_average_holds holds_new) simp
  have a5: "array_op fl_mul x y ?s1 = (Return (Suc (length (heap s))), ?s2)"
    using array_mul_holds [OF holds_alloc [OF x] holds_alloc [OF y] len, of "[map Fin (squares xs)]"]
    by simp
  have a6: "np_average (Suc (length (heap s))) ?s2 = (Return (Fin (mean (products xs ys))), ?s2)"
    using ne len by (intro np_average_holds holds_alloc2) (simp add: products_Nil_iff)
  show ?thesis
    unfolding LinearFit_operands_def
    by (simp add: bind_def a1 a2 a3 a4 a5 a6 scalar_op_quiet ret_def naive_num_def naive_den_def)
qed


lemma length_centred [simp]: "length (centred xs) = length xs"
  by (simp add: centred_def)


text \<open>The part of both functions after the division, on finite operands.\<close>

lemma finish_Fin:
  assumes "den \<noteq> 0"
  shows "bind (scalar_op fl_div (Fin num) (Fin den)) (\<lambda>beta.
         bind (scalar_op fl_mul beta (Fin mx)) (\<lambda>m.
         bind (scalar_op fl_sub (Fin my) m) (\<lambda>alpha.
         ret (beta, alpha)))) s = (Return (line_through num den mx my), s)"
  using assms
  by (simp add: bind_def scalar_op_quiet fl_div_Fin ret_def line_through_def)

lemma finish_NaN:
  "bind (scalar_op fl_div (Fin 0) (Fin 0)) (\<lambda>beta.
   bind (scalar_op fl_mul beta (Fin mx)) (\<lambda>m.
   bind (scalar_op fl_sub (Fin my) m) (\<lambda>alpha.
   ret (beta, alpha)))) s =
     (Return (line_through 0 0 mx my), s\<lparr>warned := warned s @ [InvalidValue]\<rparr>)"
  by (simp add: bind_def scalar_op_def fl_div_zero_zero fl_mul_def fl_sub_def invalid_def
      warn_def ret_def line_through_def fp_warnings_def)


section \<open>The formulas: algebra\<close>

text \<open>
  The centred sums are \<open>n\<close> times the moment expressions, and a denominator that
  vanishes takes its numerator with it.
\<close>

lemma sum_shifted_products:
  "length xs = length ys \<Longrightarrow>
   sum_list (products (map (\<lambda>u. u - c) xs) (map (\<lambda>v. v - d) ys)) =
     sum_list (products xs ys) - d * sum_list xs - c * sum_list ys
       + real (length xs) * c * d"
  by (induction xs ys rule: list_induct2) (simp_all add: products_def algebra_simps)

lemma sum_shifted_squares:
  "sum_list (squares (map (\<lambda>u. u - c) xs)) =
     sum_list (squares xs) - 2 * c * sum_list xs + real (length xs) * c * c"
  by (induction xs) (simp_all add: squares_def algebra_simps)

lemma stable_num_naive:
  assumes "length xs = length ys" and "xs \<noteq> []"
  shows "stable_num xs ys = real (length xs) * naive_num xs ys"
proof -
  have n: "real (length xs) \<noteq> 0" "real (length ys) \<noteq> 0"
    using assms by auto
  have lp: "length (products xs ys) = length xs"
    using assms by (simp add: products_def)
  have "stable_num xs ys =
      sum_list (products xs ys) - mean ys * sum_list xs - mean xs * sum_list ys
        + real (length xs) * mean xs * mean ys"
    unfolding stable_num_def centred_def using assms(1) by (rule sum_shifted_products)
  also have "\<dots> = real (length xs) * naive_num xs ys"
    using n assms(1) by (simp add: naive_num_def mean_def lp field_simps)
  finally show ?thesis .
qed

lemma stable_den_naive:
  assumes "xs \<noteq> []"
  shows "stable_den xs = real (length xs) * naive_den xs"
proof -
  have n: "real (length xs) \<noteq> 0"
    using assms by auto
  have ls: "length (squares xs) = length xs"
    by (simp add: squares_def)
  have "stable_den xs =
      sum_list (squares xs) - 2 * mean xs * sum_list xs
        + real (length xs) * mean xs * mean xs"
    unfolding stable_den_def centred_def by (rule sum_shifted_squares)
  also have "\<dots> = real (length xs) * naive_den xs"
    using n by (simp add: naive_den_def mean_def ls field_simps)
  finally show ?thesis .
qed

lemma stable_den_zeroD:
  assumes "stable_den xs = 0" and "u \<in> set xs"
  shows "u = mean xs"
proof -
  have "\<forall>v \<in> set (squares (centred xs)). v = 0"
    using assms(1) unfolding stable_den_def
    by (subst (asm) sum_list_nonneg_eq_0_iff) (auto simp: squares_def)
  moreover have "(u - mean xs) * (u - mean xs) \<in> set (squares (centred xs))"
    using assms(2) by (auto simp: squares_def centred_def)
  ultimately show ?thesis by auto
qed

lemma stable_den_zero_num:
  assumes "length xs = length ys" and "stable_den xs = 0"
  shows "stable_num xs ys = 0"
proof -
  have "centred xs = map (\<lambda>u. 0) xs"
    unfolding centred_def using stable_den_zeroD [OF assms(2)] by (intro map_cong) auto
  moreover have "length zs = length ws \<Longrightarrow> sum_list (products (map (\<lambda>u. 0) zs) ws) = 0"
    for zs ws :: "real list"
    by (induction zs ws rule: list_induct2) (simp_all add: products_def)
  ultimately show ?thesis
    using assms(1) by (simp add: stable_num_def)
qed

lemma naive_den_zero_num:
  assumes "length xs = length ys" and "xs \<noteq> []" and "naive_den xs = 0"
  shows "naive_num xs ys = 0"
proof -
  have "stable_den xs = 0"
    using assms by (simp add: stable_den_naive)
  then have "stable_num xs ys = 0"
    by (rule stable_den_zero_num [OF assms(1)])
  then have "real (length xs) * naive_num xs ys = 0"
    by (simp add: stable_num_naive [OF assms(1,2)])
  then show ?thesis
    using assms(2) by simp
qed

lemma line_through_scale:
  "k \<noteq> 0 \<Longrightarrow> line_through (k * num) (k * den) mx my = line_through num den mx my"
  by (simp add: line_through_def)

lemma fits_agree:
  assumes "length xs = length ys" and "xs \<noteq> []"
  shows "stable_fit xs ys = naive_fit xs ys"
proof -
  have "real (length xs) \<noteq> 0"
    using assms(2) by simp
  then show ?thesis
    unfolding stable_fit_def naive_fit_def stable_num_naive [OF assms] stable_den_naive [OF assms(2)]
    by (rule line_through_scale)
qed






section \<open>The two fits on finite arrays\<close>

lemma LinearFit_run:
  assumes x: "holds s x xs" and y: "holds s y ys"
    and len: "length xs = length ys" and ne: "xs \<noteq> []"
  shows "LinearFit x y s =
    (Return (naive_fit xs ys),
     s\<lparr>heap := heap s @ [map Fin (squares xs), map Fin (products xs ys)],
       warned := warned s @ (if naive_den xs = 0 then [InvalidValue] else [])\<rparr>)"
proof (cases "naive_den xs = 0")
  case True
  then have "naive_num xs ys = 0"
    using len ne by (simp add: naive_den_zero_num)
  with True show ?thesis
    unfolding LinearFit_def
    by (simp add: bind_def [of "LinearFit_operands x y"] LinearFit_operands_Fin [OF x y len ne]
        finish_NaN naive_fit_def)
next
  case False
  then show ?thesis
    unfolding LinearFit_def
    by (simp add: bind_def [of "LinearFit_operands x y"] LinearFit_operands_Fin [OF x y len ne]
        finish_Fin naive_fit_def)
qed


section \<open>The estimators compute the formulas\<close>







section \<open>Adding an offset to x\<close>


lemma sum_list_shift: "sum_list (map (\<lambda>u. u + c) xs) = sum_list xs + real (length xs) * c"
  for c :: real
  by (induction xs) (simp_all add: algebra_simps)

lemma mean_shift: "xs \<noteq> [] \<Longrightarrow> mean (map (\<lambda>u. u + c) xs) = mean xs + c"
  by (simp add: mean_def sum_list_shift field_simps)

lemma centred_shift: "xs \<noteq> [] \<Longrightarrow> centred (map (\<lambda>u. u + c) xs) = centred xs"
  by (simp add: centred_def mean_shift comp_def)






section \<open>The mean\<close>




section \<open>What a call leaves alone\<close>

lemma arrays_kept_refl [simp]: "arrays_kept s s"
  by (simp add: arrays_kept_def)

lemma arrays_kept_iff: "arrays_kept s s' \<longleftrightarrow> (\<exists>as. heap s' = heap s @ as)"
  unfolding arrays_kept_def
  by (metis append_eq_conv_conj append_take_drop_id)

lemma arrays_kept_trans: "arrays_kept s s' \<Longrightarrow> arrays_kept s' s'' \<Longrightarrow> arrays_kept s s''"
  by (auto simp: arrays_kept_iff)

lemma kept_bind:
  assumes "\<And>s. arrays_kept s (snd (m s))" and "\<And>v s. arrays_kept s (snd (f v s))"
  shows "arrays_kept s (snd (bind m f s))"
proof (cases "m s")
  case (Pair r s')
  have "arrays_kept s s'"
    using assms(1) [of s] Pair by simp
  then show ?thesis
    using Pair assms(2) by (cases r) (auto simp: bind_def intro: arrays_kept_trans)
qed

lemma kept_prims [simp]:
  "arrays_kept s (snd (ret v s))"
  "arrays_kept s (snd (raise err s))"
  "arrays_kept s (snd (warn ws s))"
  "arrays_kept s (snd (print p s))"
  "arrays_kept s (snd (load x s))"
  "arrays_kept s (snd (new_array a s))"
  by (simp_all add: ret_def raise_def warn_def print_def load_def new_array_def arrays_kept_def)

lemma kept_emit [simp]: "arrays_kept s (snd (emit rs s))"
  unfolding emit_def by (intro kept_bind) simp_all

lemma kept_array_op [simp]: "arrays_kept s (snd (array_op f x y s))"
  unfolding array_op_def by (intro kept_bind) (simp_all split: option.split)

lemma kept_array_scalar_op [simp]: "arrays_kept s (snd (array_scalar_op f x c s))"
  unfolding array_scalar_op_def by (intro kept_bind) simp_all

lemma kept_array_square [simp]: "arrays_kept s (snd (array_square x s))"
  unfolding array_square_def by (intro kept_bind) simp_all

lemma kept_scalar_op [simp]: "arrays_kept s (snd (scalar_op f a b s))"
  unfolding scalar_op_def by (intro kept_bind) simp_all

lemma kept_np_sum [simp]: "arrays_kept s (snd (np_sum x s))"
  unfolding np_sum_def by (intro kept_bind) simp_all

lemma kept_np_average [simp]: "arrays_kept s (snd (np_average x s))"
  unfolding np_average_def by (intro kept_bind) simp_all

lemma kept_LinearFit_operands [simp]: "arrays_kept s (snd (LinearFit_operands x y s))"
  unfolding LinearFit_operands_def by (intro kept_bind) simp_all

lemma kept_LinearFit2_operands [simp]: "arrays_kept s (snd (LinearFit2_operands x y s))"
  unfolding LinearFit2_operands_def by (intro kept_bind) simp_all

lemma kept_LinearFit [simp]: "arrays_kept s (snd (LinearFit x y s))"
  unfolding LinearFit_def split_def by (intro kept_bind) simp_all

lemma kept_LinearFit2 [simp]: "arrays_kept s (snd (LinearFit2 x y s))"
  unfolding LinearFit2_def split_def by (intro kept_bind) simp_all

lemma kept_comparator [simp]: "arrays_kept s (snd (comparator t ph b s))"
  unfolding comparator_def by (intro kept_bind) simp_all

lemma nothing_printed_bind:
  assumes "\<And>s. out (snd (m s)) = out s" and "\<And>v s. out (snd (f v s)) = out s"
  shows "out (snd (bind m f s)) = out s"
proof (cases "m s")
  case (Pair r s')
  have "out s' = out s"
    using assms(1) [of s] Pair by simp
  then show ?thesis
    using Pair assms(2) by (cases r) (auto simp: bind_def)
qed

lemma nothing_printed_prims [simp]:
  "out (snd (ret v s)) = out s"
  "out (snd (raise err s)) = out s"
  "out (snd (warn ws s)) = out s"
  "out (snd (load x s)) = out s"
  "out (snd (new_array a s)) = out s"
  by (simp_all add: ret_def raise_def warn_def load_def new_array_def)

lemma nothing_printed_emit [simp]: "out (snd (emit rs s)) = out s"
  unfolding emit_def by (intro nothing_printed_bind) simp_all

lemma nothing_printed_array_op [simp]: "out (snd (array_op f x y s)) = out s"
  unfolding array_op_def by (intro nothing_printed_bind) (simp_all split: option.split)

lemma nothing_printed_array_scalar_op [simp]: "out (snd (array_scalar_op f x c s)) = out s"
  unfolding array_scalar_op_def by (intro nothing_printed_bind) simp_all

lemma nothing_printed_array_square [simp]: "out (snd (array_square x s)) = out s"
  unfolding array_square_def by (intro nothing_printed_bind) simp_all

lemma nothing_printed_scalar_op [simp]: "out (snd (scalar_op f a b s)) = out s"
  unfolding scalar_op_def by (intro nothing_printed_bind) simp_all

lemma nothing_printed_np_sum [simp]: "out (snd (np_sum x s)) = out s"
  unfolding np_sum_def by (intro nothing_printed_bind) simp_all

lemma nothing_printed_np_average [simp]: "out (snd (np_average x s)) = out s"
  unfolding np_average_def by (intro nothing_printed_bind) simp_all

lemma nothing_printed_LinearFit_operands [simp]: "out (snd (LinearFit_operands x y s)) = out s"
  unfolding LinearFit_operands_def by (intro nothing_printed_bind) simp_all

lemma nothing_printed_LinearFit2_operands [simp]: "out (snd (LinearFit2_operands x y s)) = out s"
  unfolding LinearFit2_operands_def by (intro nothing_printed_bind) simp_all

lemma nothing_printed_LinearFit: "out (snd (LinearFit x y s)) = out s"
  unfolding LinearFit_def split_def by (intro nothing_printed_bind) simp_all

lemma nothing_printed_LinearFit2: "out (snd (LinearFit2 x y s)) = out s"
  unfolding LinearFit2_def split_def by (intro nothing_printed_bind) simp_all

text \<open>
  C9. Running \<open>LinearFit\<close>, \<open>LinearFit2\<close> or the comparing cell leaves every array that
  existed before the call as it was, the inputs among them (the arrays the call makes
  are new ones), and the two functions print nothing: what the cell prints is its only
  output.
\<close>

theorem inputs_unchanged:
  "arrays_kept s (snd (LinearFit x y s)) \<and> out (snd (LinearFit x y s)) = out s \<and>
   arrays_kept s (snd (LinearFit2 x y s)) \<and> out (snd (LinearFit2 x y s)) = out s \<and>
   arrays_kept s (snd (comparator t ph b s))"
  by (simp add: nothing_printed_LinearFit nothing_printed_LinearFit2)

section \<open>The variable-scope notebook: who sees the assignment\<close>

lemma function4_run:
  assumes "2 < length (heap s ! e)"
  shows "function4 e s =
    (Return (),
     s\<lparr>heap := (heap s)[e := (heap s ! e)[2 := Fin 0]],
       out := out s @
         [Fmt '' Inside the function, we receive an argument with value {0}'' (heap s ! e),
          Fmt '' We set one element to zero - now, inside the function, e={0}''
            ((heap s)[e := (heap s ! e)[2 := Fin 0]] ! e)]\<rparr>)"
  using assms by (simp add: function4_def bind_def load_def print_def setitem_def)

lemma function4_short:
  assumes "\<not> 2 < length (heap s ! e)"
  shows "function4 e s =
    (Raise IndexError,
     s\<lparr>out := out s @
         [Fmt '' Inside the function, we receive an argument with value {0}'' (heap s ! e)]\<rparr>)"
  using assms by (simp add: function4_def bind_def load_def print_def setitem_def)

lemma function4_safe_heap:
  "heap (snd (function4_safe e s)) =
     heap s @ [if 2 < length (heap s ! e) then (heap s ! e)[2 := Fin 1] else heap s ! e]"
  by (simp add: function4_safe_def copy_def bind_def load_def new_array_def print_def
      setitem_def)

text \<open>
  C10, as amended. For every array \<open>e\<close> of at least three elements, \<open>function4(e)\<close> writes
  into the caller's array: after the call \<open>e[2]\<close> is \<open>0\<close>, the other elements and the
  other arrays are as before. For every array \<open>e\<close>, \<open>function4_safe(e)\<close> works on a copy
  and leaves the caller's array, and every other array that existed, unchanged.
\<close>

theorem function4_in_place:
  assumes "e < length (heap s)"
  shows "(2 < length (heap s ! e) \<longrightarrow>
      fst (function4 e s) = Return () \<and>
      heap (snd (function4 e s)) = (heap s)[e := (heap s ! e)[2 := Fin 0]] \<and>
      heap (snd (function4 e s)) ! e ! 2 = Fin 0) \<and>
    heap (snd (function4_safe e s)) ! e = heap s ! e \<and>
    arrays_kept s (snd (function4_safe e s))"
  using assms
  by (simp add: function4_run function4_safe_heap arrays_kept_def nth_append)

theorem function4_in_place_witness:
  "fst (function4 0 sample) = Return () \<and>
   heap (snd (function4 0 sample)) ! 0 = [Fin 1, Fin 2, Fin 0] \<and>
   heap (snd (function4_safe 0 sample)) ! 0 = [Fin 1, Fin 2, Fin 3]"
  using function4_in_place [of 0 sample]
  by (simp add: sample_def)

text \<open>
  On an array of two elements \<open>function4\<close> raises \<open>IndexError\<close> at the assignment, and
  the caller's array is as it was: the call has not set \<open>e[2]\<close>, which does not exist.
\<close>

theorem function4_short_array_counterexample:
  "fst (function4 5 sample) = Raise IndexError \<and>
   heap (snd (function4 5 sample)) ! 5 = [Fin 1, Fin 2] \<and>
   heap (snd (function4 5 sample)) = heap sample"
  using function4_short [of sample 5]
  by (simp add: sample_def)

section \<open>The comparing cell\<close>






section \<open>Degenerate input\<close>














section \<open>In exact arithmetic the offset does not show\<close>

text \<open>
  Without rounding, the three slopes the comparing cell prints are one number: the
  difference the notebook exhibits comes from the rounding of float64 arithmetic, which
  this development leaves out.
\<close>

lemma stable_slope_shift:
  assumes "xs \<noteq> []"
  shows "fst (stable_fit (map (\<lambda>u. u - B) xs) ys) = fst (stable_fit xs ys)"
proof -
  have "centred (map (\<lambda>u. u - B) xs) = centred xs"
    using centred_shift [OF assms, of "- B"] by simp
  then show ?thesis
    by (simp add: stable_fit_def stable_num_def stable_den_def line_through_def)
qed

lemma printed_slopes_coincide:
  assumes "length ts = length ps" and "ts \<noteq> []"
  shows "fst (naive_fit (map (\<lambda>u. u - B) ts) ps) = fst (naive_fit ts ps) \<and>
    fst (stable_fit ts ps) = fst (naive_fit ts ps)"
proof -
  have same: "stable_fit ts ps = naive_fit ts ps"
    using assms by (rule fits_agree)
  have "naive_fit (map (\<lambda>u. u - B) ts) ps = stable_fit (map (\<lambda>u. u - B) ts) ps"
    using assms by (intro fits_agree [symmetric]) simp_all
  then have "fst (naive_fit (map (\<lambda>u. u - B) ts) ps) = fst (stable_fit ts ps)"
    using stable_slope_shift [OF assms(2), of B ps] by simp
  with same show ?thesis by simp
qed

section \<open>The notebook's data in exact arithmetic\<close>

text \<open>
  On the notebook's data the denominator of \<open>LinearFit\<close> is the number the source gives
  in its comment ("Matlab reports a true answer for the denominator as
  0.00082584721749"), and the slope is 27.2693 to four decimal places.
\<close>

lemma scenario_holds:
  "holds scenario 0
     [0.440225, 0.45023, 0.460235, 0.470241, 0.480245,
      0.490251, 0.500256, 0.510261, 0.520266, 0.530271]"
  "holds scenario 1
     [568.1473, 568.4774, 568.7626, 569.0398, 569.234,
      569.5013, 569.8461, 570.1536, 570.3557, 570.6171]"
  by (simp_all add: scenario_def holds_def)

lemma scenario_denominator:
  "\<exists>xMean yMean num.
     fst (LinearFit_operands 0 1 scenario) = Return (xMean, yMean, num, Fin 0.00082584721749)"
  using LinearFit_operands_Fin [OF scenario_holds]
  by (simp add: naive_den_def mean_def squares_def)

lemma scenario_slope:
  "\<exists>intercept.
     fst (LinearFit 0 1 scenario) = Return (Fin (2252030764100 / 82584721749), intercept)"
  using LinearFit_run [OF scenario_holds]
  by (simp add: naive_fit_def naive_num_def naive_den_def mean_def squares_def products_def
      line_through_def)

lemma scenario_slope_rounded: "\<bar>2252030764100 / 82584721749 - 27.2693\<bar> < (0.0001 :: real)"
  by simp

end
